theory Spec2Isabelle
  imports Main "HOL-Library.Word" "HOL-Library.Product_Lexorder"
begin

section \<open>pymclevel/materials.py: the block registry\<close>

text \<open>
  Identifiers are pairs of natural numbers \<open>(ID, blockData)\<close>. All the per-block tables of
  \<open>MCMaterials\<close> have the fixed shape \<open>id_limit \<times> 16\<close>: the numpy arrays by construction, the
  Python lists \<open>names\<close>, \<open>aka\<close> and \<open>type\<close> because they are only ever changed by item
  assignment with rows of 16 entries. A table is therefore a total function of its indices,
  and every read or write of the source is guarded by the bounds check that makes Python
  raise \<open>IndexError\<close>. Negative indices (which Python counts from the end) are not modelled.
\<close>

datatype error = IndexError | AttributeError

type_synonym u8 = "8 word"
type_synonym u16 = "16 word"
type_synonym rgba = "u8 \<times> u8 \<times> u8 \<times> u8"
type_synonym texcoord = "u16 \<times> u16"

definition id_limit :: nat where
  "id_limit = 4096"

definition NOTEX :: "nat \<times> nat" where
  "NOTEX = (0x1F0, 0x1F0)"

subsection \<open>class Block\<close>

record Block =
  ID :: nat
  blockData :: nat
  stringID :: string

text \<open>\<open>Block.__cmp__\<close> compares the keys \<open>(ID, blockData)\<close> lexicographically.\<close>

definition block_key :: "Block \<Rightarrow> nat \<times> nat" where
  "block_key b = (ID b, blockData b)"

subsection \<open>class MCMaterials\<close>

text \<open>
  \<open>type\<close> is built as \<open>[["NORMAL"] * 16] * id_limit\<close>: the outer list holds \<open>id_limit\<close>
  references to one row object. The rows therefore live in a store \<open>type_heap\<close> (address to
  row), \<open>type_ref\<close> gives the address held at each index of the outer list, and
  \<open>type_next\<close> is the next unused address. \<open>mats_name\<close> is the attribute \<open>name\<close> that
  the module sets on a registry after it is constructed (\<open>None\<close> while it is not set).
\<close>

record MCMaterials =
  defaultName :: string
  blockTextures :: "nat \<Rightarrow> nat \<Rightarrow> nat \<Rightarrow> texcoord"
  names :: "nat \<Rightarrow> nat \<Rightarrow> string"
  aka :: "nat \<Rightarrow> nat \<Rightarrow> string"
  type_ref :: "nat \<Rightarrow> nat"
  type_heap :: "nat \<Rightarrow> nat \<Rightarrow> string"
  type_next :: nat
  blocksByType :: "string \<Rightarrow> Block list"
  allBlocks :: "Block list"
  blocksByID :: "nat \<times> nat \<rightharpoonup> Block"
  lightEmission :: "nat \<Rightarrow> u8"
  lightAbsorption :: "nat \<Rightarrow> u8"
  flatColors :: "nat \<Rightarrow> nat \<Rightarrow> rgba"
  mats_name :: "string option"

definition defaultColor :: rgba where
  "defaultColor = (0xc9, 0x77, 0xf0, 0xff)"

definition defaultBrightness :: nat where
  "defaultBrightness = 0"

definition defaultOpacity :: nat where
  "defaultOpacity = 15"

definition defaultTexture :: "nat \<times> nat" where
  "defaultTexture = NOTEX"

text \<open>The keyword arguments of \<open>addBlock\<close>; \<open>None\<close> is an omitted keyword.\<close>

datatype color_arg = RGB nat nat nat | RGBA nat nat nat nat

datatype texture_arg =
    TexOne "nat \<times> nat"
  | TexSix "nat \<times> nat" "nat \<times> nat" "nat \<times> nat" "nat \<times> nat" "nat \<times> nat" "nat \<times> nat"

record kw =
  kw_name :: "string option"
  kw_idStr :: "string option"
  kw_brightness :: "nat option"
  kw_opacity :: "nat option"
  kw_aka :: "string option"
  kw_type :: "string option"
  kw_mapcolor :: "color_arg option"
  kw_texture :: "texture_arg option"

definition no_kw :: kw where
  "no_kw = \<lparr>kw_name = None, kw_idStr = None, kw_brightness = None, kw_opacity = None,
     kw_aka = None, kw_type = None, kw_mapcolor = None, kw_texture = None\<rparr>"

text \<open>\<open>(tuple(color) + (255,))[:4]\<close>, stored into a \<open>uint8\<close> array.\<close>

fun color_value :: "color_arg \<Rightarrow> rgba" where
  "color_value (RGB r g b) = (of_nat r, of_nat g, of_nat b, 255)"
| "color_value (RGBA r g b a) = (of_nat r, of_nat g, of_nat b, of_nat a)"

definition to_texcoord :: "nat \<times> nat \<Rightarrow> texcoord" where
  "to_texcoord p = (of_nat (fst p), of_nat (snd p))"

text \<open>The texture argument broadcast to the six faces of a \<open>uint16\<close> array.\<close>

fun texture_value :: "texture_arg \<Rightarrow> nat \<Rightarrow> texcoord" where
  "texture_value (TexOne p) face = to_texcoord p"
| "texture_value (TexSix p0 p1 p2 p3 p4 p5) face = to_texcoord ([p0, p1, p2, p3, p4, p5] ! face)"

text \<open>
  \<open>a[i, (d or slice(None))] = v\<close>: variant \<open>d\<close> alone, or all the variants of \<open>i\<close> when
  \<open>d\<close> is 0.
\<close>

definition set_slot :: "(nat \<Rightarrow> nat \<Rightarrow> 'a) \<Rightarrow> nat \<Rightarrow> nat \<Rightarrow> 'a \<Rightarrow> (nat \<Rightarrow> nat \<Rightarrow> 'a)" where
  "set_slot a i d v = (if d = 0 then a(i := (\<lambda>_. v)) else a(i := (a i)(d := v)))"

text \<open>
  \<open>MCMaterials.addBlock\<close>. The default of the first \<open>kw.pop\<close> reads
  \<open>self.names[blockID][blockData]\<close> whether or not a name is given, so an identifier out of
  range raises before anything is written. The test \<open>blockData is 0\<close> holds of the integer
  0, which is what the callers pass for the variant 0.
\<close>

definition addBlock :: "MCMaterials \<Rightarrow> nat \<Rightarrow> nat \<Rightarrow> kw \<Rightarrow> error + (MCMaterials \<times> Block)" where
  "addBlock m blockID d k =
    (if \<not> (blockID < id_limit \<and> d < 16) then Inl IndexError
     else
       let name = (case kw_name k of None \<Rightarrow> names m blockID d | Some n \<Rightarrow> n);
           stringName = (case kw_idStr k of None \<Rightarrow> '''' | Some s \<Rightarrow> s);
           brightness = (case kw_brightness k of None \<Rightarrow> defaultBrightness | Some v \<Rightarrow> v);
           opacity = (case kw_opacity k of None \<Rightarrow> defaultOpacity | Some v \<Rightarrow> v);
           alias = (case kw_aka k of None \<Rightarrow> '''' | Some s \<Rightarrow> s);
           ty = (case kw_type k of None \<Rightarrow> ''NORMAL'' | Some s \<Rightarrow> s);
           color = (case kw_mapcolor k of None \<Rightarrow> flatColors m blockID d | Some c \<Rightarrow> color_value c);
           textures = (case kw_texture k of None \<Rightarrow> blockTextures m
                       | Some t \<Rightarrow> set_slot (blockTextures m) blockID d (texture_value t));
           block = \<lparr>ID = blockID, blockData = d, stringID = stringName\<rparr>
       in Inr (m\<lparr>lightEmission := (lightEmission m)(blockID := of_nat brightness),
                 lightAbsorption := (lightAbsorption m)(blockID := of_nat opacity),
                 aka := (aka m)(blockID := (aka m blockID)(d := alias)),
                 flatColors := set_slot (flatColors m) blockID d color,
                 blockTextures := textures,
                 names := set_slot (names m) blockID d name,
                 type_ref := (if d = 0 then (type_ref m)(blockID := type_next m) else type_ref m),
                 type_heap := (if d = 0 then (type_heap m)(type_next m := (\<lambda>_. ty))
                               else (type_heap m)(type_ref m blockID := (type_heap m (type_ref m blockID))(d := ty))),
                 type_next := (if d = 0 then Suc (type_next m) else type_next m),
                 allBlocks := allBlocks m @ [block],
                 blocksByType := (blocksByType m)(ty := blocksByType m ty @ [block]),
                 blocksByID := (blocksByID m)((blockID, d) \<mapsto> block)\<rparr>, block))"

text \<open>
  The registry after a call of \<open>addBlock\<close>. A call that raises does so before it writes
  anything, so it leaves the registry as it was (the loader \<open>addYamlBlocks\<close> logs the
  exception and goes on with the next definition).
\<close>

definition after_addBlock :: "MCMaterials \<Rightarrow> nat \<Rightarrow> nat \<Rightarrow> kw \<Rightarrow> MCMaterials" where
  "after_addBlock m blockID d k =
     (case addBlock m blockID d k of Inr (m', b) \<Rightarrow> m' | Inl e \<Rightarrow> m)"

text \<open>The registry after a sequence of calls \<open>addBlock(blockID, d, **k)\<close>.\<close>

fun addBlocks :: "MCMaterials \<Rightarrow> (nat \<times> nat \<times> kw) list \<Rightarrow> MCMaterials" where
  "addBlocks m [] = m"
| "addBlocks m ((blockID, d, k) # cs) = addBlocks (after_addBlock m blockID d k) cs"

text \<open>
  \<open>MCMaterials.__init__\<close>: \<open>blank\<close> is the object after the assignments of lines 67 to 93
  (all rows of \<open>type\<close> hold the one address 0), and the constructor then defines Air, a
  call that cannot raise (lemma \<open>init_Air\<close> below).
\<close>

definition blank :: "string \<Rightarrow> MCMaterials" where
  "blank dn =
    \<lparr>defaultName = dn,
     blockTextures = (\<lambda>_ _ _. to_texcoord defaultTexture),
     names = (\<lambda>_ _. dn),
     aka = (\<lambda>_ _. ''''),
     type_ref = (\<lambda>_. 0),
     type_heap = (\<lambda>_ _. ''NORMAL''),
     type_next = 1,
     blocksByType = (\<lambda>_. []),
     allBlocks = [],
     blocksByID = Map.empty,
     lightEmission = (\<lambda>_. of_nat defaultBrightness),
     lightAbsorption = (\<lambda>_. of_nat defaultOpacity),
     flatColors = (\<lambda>_ _. defaultColor),
     mats_name = None\<rparr>"

definition air_kw :: kw where
  "air_kw = no_kw\<lparr>kw_name := Some ''Air'', kw_texture := Some (TexOne (0x0, 0x150)), kw_opacity := Some 0\<rparr>"

definition init :: "string \<Rightarrow> MCMaterials" where
  "init dn = after_addBlock (blank dn) 0 0 air_kw"

text \<open>
  Every block of \<open>allBlocks\<close> was made by a call of \<open>addBlock\<close> that returned, so its
  identifier is in range: \<open>blocks_ok\<close> states it for a registry taken in any state.
\<close>

definition blocks_ok :: "MCMaterials \<Rightarrow> bool" where
  "blocks_ok m = list_all (\<lambda>b. ID b < id_limit \<and> blockData b < 16) (allBlocks m)"

text \<open>\<open>MCMaterials.blockWithID\<close>\<close>

definition blockWithID :: "MCMaterials \<Rightarrow> nat \<Rightarrow> nat \<Rightarrow> Block" where
  "blockWithID m i d =
     (case blocksByID m (i, d) of Some b \<Rightarrow> b
      | None \<Rightarrow> \<lparr>ID = i, blockData = d, stringID = ''''\<rparr>)"

text \<open>
  \<open>Block.__getattr__\<close>, one function per attribute: every attribute is indexed by \<open>ID\<close>,
  and \<open>name\<close>, \<open>aka\<close>, \<open>color\<close> and \<open>type\<close> by \<open>blockData\<close> as well.
\<close>

definition Block_name :: "MCMaterials \<Rightarrow> Block \<Rightarrow> error + string" where
  "Block_name m b =
     (if ID b < id_limit \<and> blockData b < 16 then Inr (names m (ID b) (blockData b))
      else Inl IndexError)"

definition Block_aka :: "MCMaterials \<Rightarrow> Block \<Rightarrow> error + string" where
  "Block_aka m b =
     (if ID b < id_limit \<and> blockData b < 16 then Inr (aka m (ID b) (blockData b))
      else Inl IndexError)"

definition Block_color :: "MCMaterials \<Rightarrow> Block \<Rightarrow> error + rgba" where
  "Block_color m b =
     (if ID b < id_limit \<and> blockData b < 16 then Inr (flatColors m (ID b) (blockData b))
      else Inl IndexError)"

definition Block_type :: "MCMaterials \<Rightarrow> Block \<Rightarrow> error + string" where
  "Block_type m b =
     (if ID b < id_limit \<and> blockData b < 16 then Inr (type_heap m (type_ref m (ID b)) (blockData b))
      else Inl IndexError)"

definition Block_brightness :: "MCMaterials \<Rightarrow> Block \<Rightarrow> error + u8" where
  "Block_brightness m b = (if ID b < id_limit then Inr (lightEmission m (ID b)) else Inl IndexError)"

definition Block_opacity :: "MCMaterials \<Rightarrow> Block \<Rightarrow> error + u8" where
  "Block_opacity m b = (if ID b < id_limit then Inr (lightAbsorption m (ID b)) else Inl IndexError)"

definition Block_blockTextures :: "MCMaterials \<Rightarrow> Block \<Rightarrow> error + (nat \<Rightarrow> nat \<Rightarrow> texcoord)" where
  "Block_blockTextures m b = (if ID b < id_limit then Inr (blockTextures m (ID b)) else Inl IndexError)"

subsection \<open>addYamlBlock: rotation of directed textures\<close>

text \<open>The face index of each direction name (\<open>texDirs\<close>).\<close>

definition texDirs :: "(string \<times> nat) list" where
  "texDirs = [(''FORWARD'', 5), (''BACKWARD'', 4), (''LEFT'', 1), (''RIGHT'', 0),
     (''TOP'', 2), (''BOTTOM'', 3)]"

text \<open>\<open>texDirMap.get(dir, 0)\<close>: the number of rotations for a compass direction.\<close>

definition texDirMap :: "string \<Rightarrow> nat" where
  "texDirMap dir = (case map_of [(''NORTH'', 0), (''EAST'', 1), (''SOUTH'', 2), (''WEST'', 3)] dir of
     Some n \<Rightarrow> n | None \<Rightarrow> 0)"

definition rot :: "nat list" where
  "rot = [5, 0, 2, 3, 4, 1]"

text \<open>
  \<open>rot90cw\<close>: \<open>texture[:] = [texture[r] for r in rot]\<close>; reading index 5 of a shorter
  list raises.
\<close>

definition rot90cw :: "'a list \<Rightarrow> error + 'a list" where
  "rot90cw texture =
     (if 5 < length texture then Inr (map (nth texture) rot) else Inl IndexError)"

text \<open>\<open>for _i in range(n): rot90cw()\<close>\<close>

fun rot90cw_times :: "nat \<Rightarrow> 'a list \<Rightarrow> error + 'a list" where
  "rot90cw_times 0 texture = Inr texture"
| "rot90cw_times (Suc n) texture =
     (case rot90cw texture of Inl e \<Rightarrow> Inl e | Inr t \<Rightarrow> rot90cw_times n t)"

subsection \<open>Strings\<close>

text \<open>\<open>s.startswith(p)\<close>, \<open>sub in s\<close>, \<open>s.lower()\<close> (ASCII) and \<open>s.split(" ")\<close>.\<close>

fun startswith :: "string \<Rightarrow> string \<Rightarrow> bool" where
  "startswith s [] = True"
| "startswith [] (c # p) = False"
| "startswith (x # s) (c # p) = (x = c \<and> startswith s p)"

fun str_in :: "string \<Rightarrow> string \<Rightarrow> bool" where
  "str_in sub [] = (sub = [])"
| "str_in sub (c # s) = (startswith (c # s) sub \<or> str_in sub s)"




subsection \<open>MCMaterials.blocksMatching\<close>







subsection \<open>Filter tables and conversions\<close>

text \<open>
  A filter table is a \<open>uint8\<close> array of shape \<open>(id_limit, 16, 2)\<close>; assignment into it keeps
  the low 8 bits of each number. \<open>indices_table\<close> is the table after \<open>table[:] = _indices\<close>.
\<close>

type_synonym table = "nat \<Rightarrow> nat \<Rightarrow> u8 \<times> u8"

definition to_u8 :: "nat \<times> nat \<Rightarrow> u8 \<times> u8" where
  "to_u8 p = (of_nat (fst p), of_nat (snd p))"

definition indices_table :: table where
  "indices_table = (\<lambda>i d. to_u8 (i, d))"

text \<open>
  An entry of \<open>unavailable\<close> or the source of a filter is an ID alone or an \<open>(ID, data)\<close>
  pair; \<open>whole_if_zero\<close> is the \<open>try: if u[1] == 0: u = u[0]\<close> step (an ID alone raises
  the \<open>TypeError\<close> that is passed over).
\<close>

datatype key = Whole nat | Slot nat nat

fun whole_if_zero :: "key \<Rightarrow> key" where
  "whole_if_zero (Whole i) = Whole i"
| "whole_if_zero (Slot i d) = (if d = 0 then Whole i else Slot i d)"

text \<open>\<open>table[u] = v\<close>\<close>

fun table_assign :: "table \<Rightarrow> key \<Rightarrow> nat \<times> nat \<Rightarrow> error + table" where
  "table_assign table (Whole i) v =
     (if i < id_limit then Inr (table(i := (\<lambda>_. to_u8 v))) else Inl IndexError)"
| "table_assign table (Slot i d) v =
     (if i < id_limit \<and> d < 16 then Inr (table(i := (table i)(d := to_u8 v)))
      else Inl IndexError)"

fun apply_unavailable :: "table \<Rightarrow> key list \<Rightarrow> nat \<times> nat \<Rightarrow> error + table" where
  "apply_unavailable table [] dflt = Inr table"
| "apply_unavailable table (u # us) dflt =
     (case table_assign table (whole_if_zero u) dflt of
        Inl e \<Rightarrow> Inl e
      | Inr table' \<Rightarrow> apply_unavailable table' us dflt)"

fun apply_filters :: "table \<Rightarrow> (key \<times> nat \<times> nat) list \<Rightarrow> error + table" where
  "apply_filters table [] = Inr table"
| "apply_filters table ((f, t) # fs) =
     (case table_assign table (whole_if_zero f) t of
        Inl e \<Rightarrow> Inl e
      | Inr table' \<Rightarrow> apply_filters table' fs)"

definition filterTable :: "(key \<times> nat \<times> nat) list \<Rightarrow> key list \<Rightarrow> nat \<times> nat \<Rightarrow> error + table" where
  "filterTable filters unavailable dflt =
     (case apply_unavailable indices_table unavailable dflt of
        Inl e \<Rightarrow> Inl e
      | Inr table \<Rightarrow> apply_filters table filters)"

text \<open>
  \<open>nullConversion\<close> and the function \<open>convert\<close> returned by \<open>filterConversion(table)\<close>, on
  one block ID and its data (numpy applies \<open>convert\<close> elementwise to arrays); \<open>None\<close> as data
  reads variant 0.
\<close>

definition nullConversion :: "nat \<Rightarrow> nat option \<Rightarrow> nat \<times> nat option" where
  "nullConversion b d = (b, d)"

definition convert :: "table \<Rightarrow> nat \<Rightarrow> nat option \<Rightarrow> error + (u8 \<times> u8)" where
  "convert table blocks data =
     (let d = (case data of None \<Rightarrow> 0 | Some d \<Rightarrow> d)
      in if blocks < id_limit \<and> d < 16 then Inr (table blocks d) else Inl IndexError)"

text \<open>The function objects that \<open>conversionFunc\<close> returns, and a call of one.\<close>

datatype conversion = NullConversion | FilterConversion table

fun call_conversion :: "conversion \<Rightarrow> nat \<Rightarrow> nat option \<Rightarrow> error + (nat \<times> nat option)" where
  "call_conversion NullConversion b d = Inr (nullConversion b d)"
| "call_conversion (FilterConversion table) b d =
     (case convert table b d of Inl e \<Rightarrow> Inl e | Inr (x, y) \<Rightarrow> Inr (unat x, Some (unat y)))"

subsection \<open>guessFilterTable\<close>

text \<open>
  \<open>sorted(blocks, reverse=True)\<close> orders by \<open>Block.__cmp__\<close>, descending, and keeps blocks
  with equal keys in their original order.
\<close>

definition sorted_reverse :: "Block list \<Rightarrow> Block list" where
  "sorted_reverse bs = rev (sort_key block_key (rev bs))"

fun name_pairs :: "MCMaterials \<Rightarrow> Block list \<Rightarrow> error + (string \<times> Block) list" where
  "name_pairs m [] = Inr []"
| "name_pairs m (b # bs) =
     (case Block_name m b of Inl e \<Rightarrow> Inl e
      | Inr n \<Rightarrow> (case name_pairs m bs of Inl e \<Rightarrow> Inl e | Inr ps \<Rightarrow> Inr ((n, b) # ps)))"

text \<open>
  \<open>toByName\<close>: a dict built from a sequence of pairs keeps the last pair of each key, which
  \<open>map_of\<close> finds first in the reversed sequence.
\<close>

definition toByName :: "MCMaterials \<Rightarrow> error + (string \<rightharpoonup> Block)" where
  "toByName matsTo =
     (case name_pairs matsTo (sorted_reverse (allBlocks matsTo)) of
        Inl e \<Rightarrow> Inl e
      | Inr ps \<Rightarrow> Inr (map_of (rev ps)))"

text \<open>\<open>for b in blocks: if p(b): block = b; break\<close>\<close>

fun first_block :: "(Block \<Rightarrow> error + bool) \<Rightarrow> Block list \<Rightarrow> error + Block option" where
  "first_block p [] = Inr None"
| "first_block p (b # bs) =
     (case p b of Inl e \<Rightarrow> Inl e
      | Inr found \<Rightarrow> if found then Inr (Some b) else first_block p bs)"

definition name_startswith :: "MCMaterials \<Rightarrow> string \<Rightarrow> Block \<Rightarrow> error + bool" where
  "name_startswith m fname b =
     (case Block_name m b of Inl e \<Rightarrow> Inl e | Inr n \<Rightarrow> Inr (startswith n fname))"

definition in_name :: "MCMaterials \<Rightarrow> string \<Rightarrow> Block \<Rightarrow> error + bool" where
  "in_name m fname b =
     (case Block_name m b of Inl e \<Rightarrow> Inl e | Inr n \<Rightarrow> Inr (str_in fname n))"

definition in_aka :: "MCMaterials \<Rightarrow> string \<Rightarrow> Block \<Rightarrow> error + bool" where
  "in_aka m fname b =
     (case Block_aka m b of Inl e \<Rightarrow> Inl e | Inr a \<Rightarrow> Inr (str_in fname a))"

text \<open>
  The search for one source block, from its resolved name \<open>fname\<close> (the source reads
  \<open>fromBlock.name\<close> again at each use, with the same result).
\<close>

definition guess_block :: "MCMaterials \<Rightarrow> (string \<rightharpoonup> Block) \<Rightarrow> string \<Rightarrow> error + Block option" where
  "guess_block matsTo byName fname =
     (case byName fname of
        Some b \<Rightarrow> Inr (Some b)
      | None \<Rightarrow>
         (case first_block (name_startswith matsTo fname) (allBlocks matsTo) of
            Inl e \<Rightarrow> Inl e
          | Inr (Some b) \<Rightarrow> Inr (Some b)
          | Inr None \<Rightarrow>
             (case first_block (in_name matsTo fname) (allBlocks matsTo) of
                Inl e \<Rightarrow> Inl e
              | Inr (Some b) \<Rightarrow> Inr (Some b)
              | Inr None \<Rightarrow>
                 (case first_block (in_aka matsTo fname) (allBlocks matsTo) of
                    Inl e \<Rightarrow> Inl e
                  | Inr (Some b) \<Rightarrow> Inr (Some b)
                  | Inr None \<Rightarrow>
                     Inr (if ''Indigo Wool'' = fname then byName ''Purple Wool''
                          else if ''Violet Wool'' = fname then byName ''Purple Wool''
                          else None)))))"

type_synonym guess = "((nat \<times> nat) \<times> (nat \<times> nat)) list \<times> (nat \<times> nat) list"

fun guess_loop ::
  "MCMaterials \<Rightarrow> MCMaterials \<Rightarrow> (string \<rightharpoonup> Block) \<Rightarrow> Block list \<Rightarrow> guess \<Rightarrow> error + guess" where
  "guess_loop matsFrom matsTo byName [] acc = Inr acc"
| "guess_loop matsFrom matsTo byName (fromBlock # rest) (filters, unavailable) =
     (case Block_name matsFrom fromBlock of
        Inl e \<Rightarrow> Inl e
      | Inr fname \<Rightarrow>
         (case guess_block matsTo byName fname of
            Inl e \<Rightarrow> Inl e
          | Inr (Some block) \<Rightarrow>
             guess_loop matsFrom matsTo byName rest
               (if block_key block \<noteq> block_key fromBlock
                then filters @ [(block_key fromBlock, block_key block)] else filters,
                unavailable)
          | Inr None \<Rightarrow>
             guess_loop matsFrom matsTo byName rest
               (filters, unavailable @ [block_key fromBlock])))"

definition guessFilterTable :: "MCMaterials \<Rightarrow> MCMaterials \<Rightarrow> error + guess" where
  "guessFilterTable matsFrom matsTo =
     (case toByName matsTo of
        Inl e \<Rightarrow> Inl e
      | Inr byName \<Rightarrow> guess_loop matsFrom matsTo byName (allBlocks matsFrom) ([], []))"

subsection \<open>conversionFunc\<close>

text \<open>
  The registries are objects compared by identity (\<open>destMats is sourceMats\<close>, and as keys of
  \<open>_conversionFuncs\<close>): they are named by references into \<open>objects\<close>. Of the log lines
  between \<open>guessFilterTable\<close> and \<open>_filterTable\<close>, the model keeps what can raise: they
  read \<open>sourceMats.name\<close> and \<open>destMats.name\<close>, an \<open>AttributeError\<close> on a registry that
  was never given a name.
\<close>

record world =
  objects :: "nat \<Rightarrow> MCMaterials"
  conversionFuncs :: "nat \<times> nat \<rightharpoonup> conversion"

definition slot_key :: "nat \<times> nat \<Rightarrow> key" where
  "slot_key p = Slot (fst p) (snd p)"

definition conversionFunc :: "world \<Rightarrow> nat \<Rightarrow> nat \<Rightarrow> error + (conversion \<times> world)" where
  "conversionFunc w destMats sourceMats =
     (if destMats = sourceMats then Inr (NullConversion, w)
      else
        (case conversionFuncs w (destMats, sourceMats) of
           Some func \<Rightarrow> Inr (func, w)
         | None \<Rightarrow>
            (case guessFilterTable (objects w sourceMats) (objects w destMats) of
               Inl e \<Rightarrow> Inl e
             | Inr (filters, unavailable) \<Rightarrow>
                if mats_name (objects w sourceMats) = None \<or> mats_name (objects w destMats) = None
                then Inl AttributeError
                else
                (case filterTable (map (\<lambda>(f, t). (slot_key f, t)) filters)
                        (map slot_key unavailable) (35, 0) of
                   Inl e \<Rightarrow> Inl e
                 | Inr table \<Rightarrow>
                    Inr (FilterConversion table,
                         w\<lparr>conversionFuncs :=
                             (conversionFuncs w)((destMats, sourceMats) \<mapsto> FilterConversion table)\<rparr>)))))"

subsection \<open>Auxiliary notions\<close>

text \<open>
  \<open>same_at j m m'\<close>: the registries \<open>m\<close> and \<open>m'\<close> hold the same names, aliases, colours,
  textures, light values and known blocks for block ID \<open>j\<close>.
\<close>

definition same_at :: "nat \<Rightarrow> MCMaterials \<Rightarrow> MCMaterials \<Rightarrow> bool" where
  "same_at j m m' \<longleftrightarrow>
     names m' j = names m j \<and> aka m' j = aka m j \<and> flatColors m' j = flatColors m j \<and>
     blockTextures m' j = blockTextures m j \<and> lightEmission m' j = lightEmission m j \<and>
     lightAbsorption m' j = lightAbsorption m j \<and>
     (\<forall>d. blocksByID m' (j, d) = blocksByID m (j, d))"


text \<open>
  The identifier that a definition targets, and the invariant that \<open>blocksByID\<close> holds
  under each identifier a descriptor of that identifier.
\<close>

definition target :: "nat \<times> nat \<times> kw \<Rightarrow> nat \<times> nat" where
  "target c = (fst c, fst (snd c))"

definition byID_ok :: "MCMaterials \<Rightarrow> bool" where
  "byID_ok m \<longleftrightarrow> (\<forall>i d b. blocksByID m (i, d) = Some b \<longrightarrow> ID b = i \<and> blockData b = d)"

text \<open>A definition that gives every keyword of \<open>addBlock\<close> a value other than its default.\<close>

definition stone_kw :: kw where
  "stone_kw = \<lparr>kw_name = Some ''Stone'', kw_idStr = Some ''minecraft:stone'',
     kw_brightness = Some 7, kw_opacity = Some 3, kw_aka = Some ''Rock'',
     kw_type = Some ''STAIRS'', kw_mapcolor = Some (RGB 1 2 3),
     kw_texture = Some (TexOne (0x10, 0x20))\<rparr>"

text \<open>
  For the blocks of a registry in range: the name and the alias read from the tables, and the
  search of \<open>guessFilterTable\<close> for one source name written with \<open>find\<close>.
\<close>

definition in_range :: "Block \<Rightarrow> bool" where
  "in_range b \<longleftrightarrow> ID b < id_limit \<and> blockData b < 16"

definition name_of :: "MCMaterials \<Rightarrow> Block \<Rightarrow> string" where
  "name_of m b = names m (ID b) (blockData b)"

definition aka_of :: "MCMaterials \<Rightarrow> Block \<Rightarrow> string" where
  "aka_of m b = aka m (ID b) (blockData b)"

definition guessed :: "MCMaterials \<Rightarrow> (string \<rightharpoonup> Block) \<Rightarrow> string \<Rightarrow> Block option" where
  "guessed matsTo byName fname =
     (case byName fname of
        Some b \<Rightarrow> Some b
      | None \<Rightarrow>
         (case find (\<lambda>b. startswith (name_of matsTo b) fname) (allBlocks matsTo) of
            Some b \<Rightarrow> Some b
          | None \<Rightarrow>
             (case find (\<lambda>b. str_in fname (name_of matsTo b)) (allBlocks matsTo) of
                Some b \<Rightarrow> Some b
              | None \<Rightarrow>
                 (case find (\<lambda>b. str_in fname (aka_of matsTo b)) (allBlocks matsTo) of
                    Some b \<Rightarrow> Some b
                  | None \<Rightarrow>
                     (if ''Indigo Wool'' = fname then byName ''Purple Wool''
                      else if ''Violet Wool'' = fname then byName ''Purple Wool''
                      else None)))))"

text \<open>The keywords of a definition that gives a name only.\<close>

definition named :: "string \<Rightarrow> kw" where
  "named n = no_kw\<lparr>kw_name := Some n\<rparr>"

section \<open>Properties of the registry\<close>

lemma init_Air:
  "addBlock (blank dn) 0 0 air_kw = Inr (init dn, \<lparr>ID = 0, blockData = 0, stringID = ''''\<rparr>)"
  by (simp add: init_def after_addBlock_def addBlock_def Let_def id_limit_def air_kw_def no_kw_def)

lemma after_addBlock_out_of_range:
  "\<not> (i < id_limit \<and> d < 16) \<Longrightarrow> after_addBlock m i d k = m"
  by (simp add: after_addBlock_def addBlock_def)

lemma addBlock_after:
  "i < id_limit \<Longrightarrow> d < 16 \<Longrightarrow>
   addBlock m i d k =
     Inr (after_addBlock m i d k,
          \<lparr>ID = i, blockData = d, stringID = (case kw_idStr k of None \<Rightarrow> '''' | Some s \<Rightarrow> s)\<rparr>)"
  by (simp add: after_addBlock_def addBlock_def Let_def)

lemma names_after:
  "names (after_addBlock m i d k) =
     (if i < id_limit \<and> d < 16
      then set_slot (names m) i d (case kw_name k of None \<Rightarrow> names m i d | Some n \<Rightarrow> n)
      else names m)"
  by (simp add: after_addBlock_def addBlock_def Let_def)

lemma aka_after:
  "aka (after_addBlock m i d k) =
     (if i < id_limit \<and> d < 16
      then (aka m)(i := (aka m i)(d := (case kw_aka k of None \<Rightarrow> '''' | Some s \<Rightarrow> s)))
      else aka m)"
  by (simp add: after_addBlock_def addBlock_def Let_def)

lemma lightEmission_after:
  "lightEmission (after_addBlock m i d k) =
     (if i < id_limit \<and> d < 16
      then (lightEmission m)(i := of_nat (case kw_brightness k of None \<Rightarrow> defaultBrightness | Some v \<Rightarrow> v))
      else lightEmission m)"
  by (simp add: after_addBlock_def addBlock_def Let_def)

lemma lightAbsorption_after:
  "lightAbsorption (after_addBlock m i d k) =
     (if i < id_limit \<and> d < 16
      then (lightAbsorption m)(i := of_nat (case kw_opacity k of None \<Rightarrow> defaultOpacity | Some v \<Rightarrow> v))
      else lightAbsorption m)"
  by (simp add: after_addBlock_def addBlock_def Let_def)

lemma flatColors_after:
  "flatColors (after_addBlock m i d k) =
     (if i < id_limit \<and> d < 16
      then set_slot (flatColors m) i d
             (case kw_mapcolor k of None \<Rightarrow> flatColors m i d | Some c \<Rightarrow> color_value c)
      else flatColors m)"
  by (simp add: after_addBlock_def addBlock_def Let_def)

lemma blockTextures_after:
  "blockTextures (after_addBlock m i d k) =
     (if i < id_limit \<and> d < 16
      then (case kw_texture k of None \<Rightarrow> blockTextures m
            | Some t \<Rightarrow> set_slot (blockTextures m) i d (texture_value t))
      else blockTextures m)"
  by (simp add: after_addBlock_def addBlock_def Let_def)

lemma type_ref_after:
  "type_ref (after_addBlock m i d k) =
     (if i < id_limit \<and> d = 0 then (type_ref m)(i := type_next m) else type_ref m)"
  by (simp add: after_addBlock_def addBlock_def Let_def)

lemma type_next_after:
  "type_next (after_addBlock m i d k) =
     (if i < id_limit \<and> d = 0 then Suc (type_next m) else type_next m)"
  by (simp add: after_addBlock_def addBlock_def Let_def)

lemma type_heap_after:
  "type_heap (after_addBlock m i d k) =
     (let ty = (case kw_type k of None \<Rightarrow> ''NORMAL'' | Some s \<Rightarrow> s) in
      if i < id_limit \<and> d < 16 then
        (if d = 0 then (type_heap m)(type_next m := (\<lambda>_. ty))
         else (type_heap m)(type_ref m i := (type_heap m (type_ref m i))(d := ty)))
      else type_heap m)"
  by (simp add: after_addBlock_def addBlock_def Let_def)

lemma allBlocks_after:
  "allBlocks (after_addBlock m i d k) =
     (if i < id_limit \<and> d < 16
      then allBlocks m @ [\<lparr>ID = i, blockData = d, stringID = (case kw_idStr k of None \<Rightarrow> '''' | Some s \<Rightarrow> s)\<rparr>]
      else allBlocks m)"
  by (simp add: after_addBlock_def addBlock_def Let_def)

lemma blocksByID_after:
  "blocksByID (after_addBlock m i d k) =
     (if i < id_limit \<and> d < 16
      then (blocksByID m)((i, d) \<mapsto> \<lparr>ID = i, blockData = d, stringID = (case kw_idStr k of None \<Rightarrow> '''' | Some s \<Rightarrow> s)\<rparr>)
      else blocksByID m)"
  by (simp add: after_addBlock_def addBlock_def Let_def)

lemma defaultName_after: "defaultName (after_addBlock m i d k) = defaultName m"
  by (simp add: after_addBlock_def addBlock_def Let_def)

lemmas after_simps = names_after aka_after lightEmission_after lightAbsorption_after
  flatColors_after blockTextures_after type_ref_after type_next_after type_heap_after
  allBlocks_after blocksByID_after defaultName_after

lemma blocks_ok_after: "blocks_ok m \<Longrightarrow> blocks_ok (after_addBlock m i d k)"
  by (simp add: blocks_ok_def allBlocks_after)

lemma blocks_ok_addBlocks: "blocks_ok m \<Longrightarrow> blocks_ok (addBlocks m cs)"
  by (induction m cs rule: addBlocks.induct) (simp_all add: blocks_ok_after)

lemma blocks_ok_init: "blocks_ok (init dn)"
  by (simp add: init_def blocks_ok_def allBlocks_after blank_def)

text \<open>Calls of \<open>addBlock\<close> on other block IDs leave the tables of block \<open>j\<close> as they are.\<close>

lemma same_at_after: "i \<noteq> j \<Longrightarrow> same_at j m (after_addBlock m i d k)"
  by (simp add: same_at_def after_simps set_slot_def split: option.split)

lemma same_at_refl: "same_at j m m"
  by (simp add: same_at_def)

lemma same_at_trans: "same_at j m m' \<Longrightarrow> same_at j m' m'' \<Longrightarrow> same_at j m m''"
  by (simp add: same_at_def)

lemma same_at_addBlocks:
  "\<forall>c\<in>set cs. fst c \<noteq> j \<Longrightarrow> same_at j m (addBlocks m cs)"
proof (induction m cs rule: addBlocks.induct)
  case (1 m)
  show ?case by (simp add: same_at_refl)
next
  case (2 m blockID d k cs)
  have "same_at j m (after_addBlock m blockID d k)"
    using 2(2) by (simp add: same_at_after)
  moreover have "same_at j (after_addBlock m blockID d k) (addBlocks (after_addBlock m blockID d k) cs)"
    using 2 by simp
  ultimately show ?case
    using same_at_trans by fastforce
qed

lemma type_ref_addBlocks:
  "\<forall>c\<in>set cs. fst (snd c) = 0 \<longrightarrow> fst c \<noteq> j \<Longrightarrow> type_ref (addBlocks m cs) j = type_ref m j"
  by (induction m cs rule: addBlocks.induct) (auto simp: type_ref_after)

lemma type_ref_init: "type_ref (init dn) j = (if j = 0 then 1 else 0)"
  by (simp add: init_def type_ref_after blank_def id_limit_def)

text \<open>Frames of a sequence of definitions, and what the descriptors resolve to.\<close>

lemma byID_ok_after: "byID_ok m \<Longrightarrow> byID_ok (after_addBlock m i d k)"
  by (simp add: byID_ok_def blocksByID_after)

lemma byID_ok_addBlocks: "byID_ok m \<Longrightarrow> byID_ok (addBlocks m cs)"
  by (induction m cs rule: addBlocks.induct) (simp_all add: byID_ok_after)

lemma byID_ok_blank: "byID_ok (blank dn)"
  by (simp add: byID_ok_def blank_def)

lemma blockWithID_ids:
  "byID_ok m \<Longrightarrow> ID (blockWithID m i d) = i \<and> blockData (blockWithID m i d) = d"
  by (auto simp: byID_ok_def blockWithID_def split: option.split)

lemma aka_addBlocks:
  "(i, d) \<notin> target ` set cs \<Longrightarrow> aka (addBlocks m cs) i d = aka m i d"
  by (induction m cs rule: addBlocks.induct) (auto simp: aka_after target_def)

lemma names_addBlocks:
  "(i, d) \<notin> target ` set cs \<Longrightarrow> (i, 0) \<notin> target ` set cs \<Longrightarrow>
   names (addBlocks m cs) i d = names m i d"
  by (induction m cs rule: addBlocks.induct) (auto simp: names_after target_def set_slot_def)

lemma flatColors_addBlocks:
  "(i, d) \<notin> target ` set cs \<Longrightarrow> (i, 0) \<notin> target ` set cs \<Longrightarrow>
   flatColors (addBlocks m cs) i d = flatColors m i d"
  by (induction m cs rule: addBlocks.induct) (auto simp: flatColors_after target_def set_slot_def)

lemma init_addBlocks: "addBlocks (init dn) cs = addBlocks (blank dn) ((0, 0, air_kw) # cs)"
  by (simp add: init_def)

lemma resolution_in_range:
  "(Block_name m b = Inl e \<longrightarrow> \<not> (ID b < id_limit \<and> blockData b < 16)) \<and>
   (Block_aka m b = Inl e \<longrightarrow> \<not> (ID b < id_limit \<and> blockData b < 16)) \<and>
   (Block_color m b = Inl e \<longrightarrow> \<not> (ID b < id_limit \<and> blockData b < 16)) \<and>
   (Block_type m b = Inl e \<longrightarrow> \<not> (ID b < id_limit \<and> blockData b < 16)) \<and>
   (Block_brightness m b = Inl e \<longrightarrow> \<not> ID b < id_limit) \<and>
   (Block_opacity m b = Inl e \<longrightarrow> \<not> ID b < id_limit) \<and>
   (Block_blockTextures m b = Inl e \<longrightarrow> \<not> ID b < id_limit)"
  by (simp add: Block_name_def Block_aka_def Block_color_def Block_type_def
      Block_brightness_def Block_opacity_def Block_blockTextures_def)




text \<open>\<open>guessFilterTable\<close> on registries whose blocks are in range.\<close>

lemma blocks_ok_in_range: "blocks_ok m \<longleftrightarrow> (\<forall>b\<in>set (allBlocks m). in_range b)"
  by (simp add: blocks_ok_def in_range_def list_all_iff)

lemma Block_name_in_range: "in_range b \<Longrightarrow> Block_name m b = Inr (name_of m b)"
  by (simp add: Block_name_def in_range_def name_of_def)

lemma Block_aka_in_range: "in_range b \<Longrightarrow> Block_aka m b = Inr (aka_of m b)"
  by (simp add: Block_aka_def in_range_def aka_of_def)

lemma name_pairs_in_range:
  "\<forall>b\<in>set bs. in_range b \<Longrightarrow> name_pairs m bs = Inr (map (\<lambda>b. (name_of m b, b)) bs)"
  by (induction bs) (simp_all add: Block_name_in_range)

lemma set_sorted_reverse: "set (sorted_reverse bs) = set bs"
  by (simp add: sorted_reverse_def)

lemma toByName_in_range:
  assumes "blocks_ok m"
  shows "toByName m =
           Inr (map_of (map (\<lambda>b. (name_of m b, b)) (sort_key block_key (rev (allBlocks m)))))"
proof -
  have "name_pairs m (sorted_reverse (allBlocks m)) =
          Inr (map (\<lambda>b. (name_of m b, b)) (sorted_reverse (allBlocks m)))"
    using assms by (simp add: name_pairs_in_range set_sorted_reverse blocks_ok_in_range)
  then show ?thesis
    by (simp add: toByName_def sorted_reverse_def rev_map)
qed

lemma map_of_find: "map_of (map (\<lambda>b. (g b, b)) xs) n = find (\<lambda>b. g b = n) xs"
  by (induction xs) auto

lemma find_sorted_least:
  "sorted (map f xs) \<Longrightarrow> find P xs = Some c \<Longrightarrow>
   c \<in> set xs \<and> P c \<and> (\<forall>x\<in>set xs. P x \<longrightarrow> f c \<le> f x)"
  by (induction xs) (auto split: if_splits)

lemma toByName_least:
  assumes "blocks_ok m" and "b \<in> set (allBlocks m)" and "name_of m b = n"
  shows "\<exists>byName c. toByName m = Inr byName \<and> byName n = Some c \<and> c \<in> set (allBlocks m) \<and>
           name_of m c = n \<and> block_key c \<le> block_key b"
proof -
  let ?xs = "sort_key block_key (rev (allBlocks m))"
  have b: "b \<in> set ?xs" using assms(2) by simp
  then have "find (\<lambda>b. name_of m b = n) ?xs \<noteq> None"
    using assms(3) by (auto simp: find_None_iff)
  then obtain c where c: "find (\<lambda>b. name_of m b = n) ?xs = Some c" by blast
  have "sorted (map block_key ?xs)" by simp
  from find_sorted_least [OF this c] b assms(3)
  have "c \<in> set ?xs \<and> name_of m c = n \<and> block_key c \<le> block_key b" by blast
  then show ?thesis
    using c by (simp add: toByName_in_range [OF assms(1)] map_of_find)
qed

lemma toByName_None:
  assumes "blocks_ok m" and "\<forall>b\<in>set (allBlocks m). name_of m b \<noteq> n"
  shows "\<exists>byName. toByName m = Inr byName \<and> byName n = None"
  using assms by (simp add: toByName_in_range map_of_find find_None_iff)

lemma first_block_find:
  "\<forall>b\<in>set bs. p b = Inr (q b) \<Longrightarrow> first_block p bs = Inr (find q bs)"
  by (induction bs) simp_all

lemma rules_in_range:
  assumes "in_range b"
  shows "name_startswith m fname b = Inr (startswith (name_of m b) fname)"
    and "in_name m fname b = Inr (str_in fname (name_of m b))"
    and "in_aka m fname b = Inr (str_in fname (aka_of m b))"
  using assms
  by (simp_all add: name_startswith_def in_name_def in_aka_def Block_name_in_range Block_aka_in_range)

lemma guess_block_guessed:
  assumes "blocks_ok mt"
  shows "guess_block mt byName fname = Inr (guessed mt byName fname)"
proof -
  have "first_block (name_startswith mt fname) (allBlocks mt) =
          Inr (find (\<lambda>b. startswith (name_of mt b) fname) (allBlocks mt))"
    and "first_block (in_name mt fname) (allBlocks mt) =
          Inr (find (\<lambda>b. str_in fname (name_of mt b)) (allBlocks mt))"
    and "first_block (in_aka mt fname) (allBlocks mt) =
          Inr (find (\<lambda>b. str_in fname (aka_of mt b)) (allBlocks mt))"
    using assms by (simp_all add: first_block_find rules_in_range blocks_ok_in_range)
  then show ?thesis
    by (simp add: guess_block_def guessed_def split: option.split)
qed

lemma guess_loop_sets:
  assumes "blocks_ok mt" and "\<forall>b\<in>set bs. in_range b"
  shows "\<exists>fs us. guess_loop mf mt byName bs (f0, u0) = Inr (f0 @ fs, u0 @ us) \<and>
           set us = {block_key fb | fb. fb \<in> set bs \<and> guessed mt byName (name_of mf fb) = None} \<and>
           set fs = {(block_key fb, block_key c) | fb c. fb \<in> set bs \<and>
                       guessed mt byName (name_of mf fb) = Some c \<and> block_key c \<noteq> block_key fb}"
  using assms(2)
proof (induction bs arbitrary: f0 u0)
  case Nil
  then show ?case by simp
next
  case (Cons fb bs)
  then have fb: "in_range fb" and bs: "\<forall>b\<in>set bs. in_range b" by simp_all
  show ?case
  proof (cases "guessed mt byName (name_of mf fb)")
    case None
    from Cons.IH [OF bs, of f0 "u0 @ [block_key fb]"] obtain fs us where
      "guess_loop mf mt byName bs (f0, u0 @ [block_key fb]) = Inr (f0 @ fs, (u0 @ [block_key fb]) @ us)"
      "set us = {block_key fb | fb. fb \<in> set bs \<and> guessed mt byName (name_of mf fb) = None}"
      "set fs = {(block_key fb, block_key c) | fb c. fb \<in> set bs \<and>
                       guessed mt byName (name_of mf fb) = Some c \<and> block_key c \<noteq> block_key fb}"
      by blast
    then have "guess_loop mf mt byName (fb # bs) (f0, u0) = Inr (f0 @ fs, u0 @ (block_key fb # us)) \<and>
        set (block_key fb # us) =
          {block_key fb' | fb'. fb' \<in> set (fb # bs) \<and> guessed mt byName (name_of mf fb') = None} \<and>
        set fs = {(block_key fb', block_key c) | fb' c. fb' \<in> set (fb # bs) \<and>
                       guessed mt byName (name_of mf fb') = Some c \<and> block_key c \<noteq> block_key fb'}"
      using None fb by (auto simp: Block_name_in_range guess_block_guessed [OF assms(1)])
    then show ?thesis by blast
  next
    case (Some c)
    let ?f1 = "if block_key c \<noteq> block_key fb then f0 @ [(block_key fb, block_key c)] else f0"
    from Cons.IH [OF bs, of ?f1 u0] obtain fs us where
      "guess_loop mf mt byName bs (?f1, u0) = Inr (?f1 @ fs, u0 @ us)"
      "set us = {block_key fb | fb. fb \<in> set bs \<and> guessed mt byName (name_of mf fb) = None}"
      "set fs = {(block_key fb, block_key c) | fb c. fb \<in> set bs \<and>
                       guessed mt byName (name_of mf fb) = Some c \<and> block_key c \<noteq> block_key fb}"
      by blast
    then have "guess_loop mf mt byName (fb # bs) (f0, u0) =
          Inr (f0 @ ((if block_key c \<noteq> block_key fb then [(block_key fb, block_key c)] else []) @ fs), u0 @ us) \<and>
        set us =
          {block_key fb' | fb'. fb' \<in> set (fb # bs) \<and> guessed mt byName (name_of mf fb') = None} \<and>
        set ((if block_key c \<noteq> block_key fb then [(block_key fb, block_key c)] else []) @ fs) =
           {(block_key fb', block_key c) | fb' c. fb' \<in> set (fb # bs) \<and>
                       guessed mt byName (name_of mf fb') = Some c \<and> block_key c \<noteq> block_key fb'}"
      using Some fb by (auto simp: Block_name_in_range guess_block_guessed [OF assms(1)])
    then show ?thesis by blast
  qed
qed

lemma named_simps:
  "kw_name (named n) = Some n" "kw_idStr (named n) = None" "kw_aka (named n) = None"
  by (simp_all add: named_def no_kw_def)

lemma allBlocks_init: "allBlocks (init dn) = [\<lparr>ID = 0, blockData = 0, stringID = ''''\<rparr>]"
  by (simp add: init_def allBlocks_after blank_def air_kw_def no_kw_def id_limit_def)

lemma names_init: "names (init dn) i d = (if i = 0 then ''Air'' else dn)"
  by (simp add: init_def names_after blank_def air_kw_def no_kw_def id_limit_def set_slot_def)

lemma aka_init: "aka (init dn) i d = ''''"
  by (simp add: init_def aka_after blank_def air_kw_def no_kw_def id_limit_def)

lemmas registry_eval = Block_name_def Block_aka_def name_startswith_def in_name_def in_aka_def
  allBlocks_after allBlocks_init names_after names_init aka_after aka_init named_simps
  set_slot_def id_limit_def block_key_def

section \<open>Definition of blocks\<close>

text \<open>
  C5. On any registry and for any in-range \<open>i\<close>, a call \<open>addBlock(i, 0, name=x, ...)\<close>
  followed by \<open>addBlock(i, 3, name=y, ...)\<close> both return, and afterwards the name of every
  descriptor of \<open>(i, v)\<close> with \<open>v < 16\<close> resolves to \<open>y\<close> when \<open>v = 3\<close> and to \<open>x\<close> for
  every other variant: the write with variant 0 reaches all 16 slots and the later write
  replaces slot 3 alone.
\<close>

theorem addBlock_variant_override:
  assumes "i < id_limit" and "v < 16"
      and "kw_name k1 = Some x" and "kw_name k2 = Some y"
  shows "\<exists>m1 b1 m2 b2.
           addBlock m i 0 k1 = Inr (m1, b1) \<and> addBlock m1 i 3 k2 = Inr (m2, b2) \<and>
           Block_name m2 \<lparr>ID = i, blockData = v, stringID = s\<rparr> = Inr (if v = 3 then y else x)"
  using assms by (simp add: addBlock_def Let_def Block_name_def set_slot_def)

theorem addBlock_variant_override_witness:
  "\<exists>m1 b1 m2 b2.
     addBlock (init ''Unused Block'') 5 0 (no_kw\<lparr>kw_name := Some ''X''\<rparr>) = Inr (m1, b1) \<and>
     addBlock m1 5 3 (no_kw\<lparr>kw_name := Some ''Y''\<rparr>) = Inr (m2, b2) \<and>
     Block_name m2 \<lparr>ID = 5, blockData = 7, stringID = ''''\<rparr> = Inr ''X''"
  using addBlock_variant_override
    [of 5 7 "no_kw\<lparr>kw_name := Some ''X''\<rparr>" "''X''" "no_kw\<lparr>kw_name := Some ''Y''\<rparr>" "''Y''"
        "init ''Unused Block''" "''''"]
  by (simp add: id_limit_def no_kw_def)

text \<open>
  C3, as the claim states it, fails: a field omitted from the keyword arguments is not always
  left at its current value. Block 1 is defined with brightness 7; a second definition of
  the same block that gives a name only sets its brightness back to 0.
\<close>

theorem addBlock_omitted_brightness_reset:
  "Block_brightness (addBlocks (init ''Unused Block'') [(1, 0, no_kw\<lparr>kw_brightness := Some 7\<rparr>)])
      \<lparr>ID = 1, blockData = 0, stringID = ''''\<rparr> = Inr 7 \<and>
   Block_brightness (addBlocks (init ''Unused Block'')
        [(1, 0, no_kw\<lparr>kw_brightness := Some 7\<rparr>), (1, 0, no_kw\<lparr>kw_name := Some ''Stone''\<rparr>)])
      \<lparr>ID = 1, blockData = 0, stringID = ''''\<rparr> = Inr 0"
  by (simp add: Block_brightness_def after_simps id_limit_def no_kw_def defaultBrightness_def)

text \<open>
  C3, amended. On any registry, a call of \<open>addBlock\<close> with an in-range identifier returns,
  and for the descriptor \<open>b\<close> it returns: an omitted \<open>name\<close>, \<open>mapcolor\<close> or \<open>texture\<close>
  leaves the name, colour or textures that \<open>b\<close> resolves to as they were before the call,
  whereas an omitted \<open>brightness\<close>, \<open>opacity\<close>, \<open>aka\<close> or \<open>type\<close> stores the default
  (0, 15, the empty string, NORMAL).
\<close>

theorem addBlock_omitted_fields:
  assumes "i < id_limit" and "d < 16"
  shows "\<exists>m' b. addBlock m i d k = Inr (m', b) \<and> ID b = i \<and> blockData b = d \<and>
          (kw_name k = None \<longrightarrow> Block_name m' b = Block_name m b) \<and>
          (kw_mapcolor k = None \<longrightarrow> Block_color m' b = Block_color m b) \<and>
          (kw_texture k = None \<longrightarrow> Block_blockTextures m' b = Block_blockTextures m b) \<and>
          (kw_brightness k = None \<longrightarrow> Block_brightness m' b = Inr 0) \<and>
          (kw_opacity k = None \<longrightarrow> Block_opacity m' b = Inr 15) \<and>
          (kw_aka k = None \<longrightarrow> Block_aka m' b = Inr '''') \<and>
          (kw_type k = None \<longrightarrow> Block_type m' b = Inr ''NORMAL'')"
  using assms
  by (simp add: addBlock_after after_simps Block_name_def Block_color_def Block_blockTextures_def
      Block_brightness_def Block_opacity_def Block_aka_def Block_type_def set_slot_def
      defaultBrightness_def defaultOpacity_def Let_def)

theorem addBlock_omitted_fields_witness:
  "\<exists>m' b. addBlock (addBlocks (init ''Unused Block'') [(1, 0, stone_kw)]) 1 0 no_kw = Inr (m', b) \<and>
      ID b = 1 \<and> blockData b = 0 \<and>
      Block_name (addBlocks (init ''Unused Block'') [(1, 0, stone_kw)]) b = Inr ''Stone'' \<and>
      Block_name m' b = Inr ''Stone'' \<and>
      Block_color (addBlocks (init ''Unused Block'') [(1, 0, stone_kw)]) b = Inr (1, 2, 3, 255) \<and>
      Block_color m' b = Inr (1, 2, 3, 255) \<and>
      Block_blockTextures (addBlocks (init ''Unused Block'') [(1, 0, stone_kw)]) b
        = Inr (\<lambda>v face. (0x10, 0x20)) \<and>
      Block_blockTextures m' b = Inr (\<lambda>v face. (0x10, 0x20)) \<and>
      Block_brightness (addBlocks (init ''Unused Block'') [(1, 0, stone_kw)]) b = Inr 7 \<and>
      Block_brightness m' b = Inr 0 \<and>
      Block_opacity (addBlocks (init ''Unused Block'') [(1, 0, stone_kw)]) b = Inr 3 \<and>
      Block_opacity m' b = Inr 15 \<and>
      Block_aka (addBlocks (init ''Unused Block'') [(1, 0, stone_kw)]) b = Inr ''Rock'' \<and>
      Block_aka m' b = Inr '''' \<and>
      Block_type (addBlocks (init ''Unused Block'') [(1, 0, stone_kw)]) b = Inr ''STAIRS'' \<and>
      Block_type m' b = Inr ''NORMAL''"
proof -
  let ?m = "addBlocks (init ''Unused Block'') [(1, 0, stone_kw)]"
  have range: "(1::nat) < id_limit" "(0::nat) < 16"
    by (simp_all add: id_limit_def)
  from addBlock_omitted_fields [OF range, of ?m no_kw] obtain m' b where
    r: "addBlock ?m 1 0 no_kw = Inr (m', b)" "ID b = 1" "blockData b = 0"
       "Block_name m' b = Block_name ?m b" "Block_color m' b = Block_color ?m b"
       "Block_blockTextures m' b = Block_blockTextures ?m b"
       "Block_brightness m' b = Inr 0" "Block_opacity m' b = Inr 15"
       "Block_aka m' b = Inr ''''" "Block_type m' b = Inr ''NORMAL''"
    by (auto simp: no_kw_def)
  have before: "Block_name ?m b = Inr ''Stone''" "Block_color ?m b = Inr (1, 2, 3, 255)"
    "Block_blockTextures ?m b = Inr (\<lambda>v face. (0x10, 0x20))"
    "Block_brightness ?m b = Inr 7" "Block_opacity ?m b = Inr 3"
    "Block_aka ?m b = Inr ''Rock''" "Block_type ?m b = Inr ''STAIRS''"
    using r(2,3)
    by (simp_all add: Block_name_def Block_color_def Block_blockTextures_def Block_brightness_def
        Block_opacity_def Block_aka_def Block_type_def after_simps set_slot_def id_limit_def
        stone_kw_def to_texcoord_def fun_eq_iff)
  show ?thesis
    using r before by simp
qed

text \<open>
  C10, as the claim states it, fails in one point: in a freshly constructed registry the
  rows of \<open>type\<close> do not all alias one list, since the constructor's own definition of Air
  has given block 0 a row of its own. After \<open>addBlock(5, 3, type="STAIRS")\<close> on a fresh
  registry the category of \<open>(7, 3)\<close> is STAIRS, that of \<open>(0, 3)\<close> is still NORMAL.
\<close>

theorem type_row_zero_not_shared:
  "type_ref (init ''Unused Block'') 0 \<noteq> type_ref (init ''Unused Block'') 1 \<and>
   Block_type (addBlocks (init ''Unused Block'') [(5, 3, no_kw\<lparr>kw_type := Some ''STAIRS''\<rparr>)])
      \<lparr>ID = 7, blockData = 3, stringID = ''''\<rparr> = Inr ''STAIRS'' \<and>
   Block_type (addBlocks (init ''Unused Block'') [(5, 3, no_kw\<lparr>kw_type := Some ''STAIRS''\<rparr>)])
      \<lparr>ID = 0, blockData = 3, stringID = ''''\<rparr> = Inr ''NORMAL''"
  by (simp add: type_ref_init Block_type_def after_simps id_limit_def no_kw_def,
      simp add: init_def after_simps blank_def air_kw_def no_kw_def id_limit_def)

text \<open>
  C10, amended. The table \<open>type\<close> is created with all its rows aliasing one list (row 0
  included, before the constructor defines Air). In a registry made by the constructor and
  any sequence of definitions, two block IDs \<open>i\<close> and \<open>j\<close> other than 0 that never got a
  definition with variant 0 still hold that one shared row, and a definition of \<open>(i, d)\<close>
  with \<open>d\<close> not 0 returns and makes the category of \<open>(j, d)\<close> the category given for
  \<open>(i, d)\<close> (NORMAL when none is given): \<open>addBlock\<close> does not leave the categories of other
  block IDs as they were.
\<close>

theorem addBlock_shared_type_row:
  assumes "0 < i" and "i < id_limit" and "0 < j" and "j < id_limit" and "0 < d" and "d < 16"
      and "\<forall>c\<in>set cs. fst (snd c) = 0 \<longrightarrow> fst c \<noteq> i \<and> fst c \<noteq> j"
  shows "type_ref (blank dn) 0 = type_ref (blank dn) i \<and>
         type_ref (addBlocks (init dn) cs) i = type_ref (addBlocks (init dn) cs) j \<and>
         (\<exists>m' b. addBlock (addBlocks (init dn) cs) i d k = Inr (m', b) \<and>
            Block_type m' \<lparr>ID = j, blockData = d, stringID = s\<rparr> =
              Inr (case kw_type k of None \<Rightarrow> ''NORMAL'' | Some t \<Rightarrow> t))"
proof -
  have i: "type_ref (addBlocks (init dn) cs) i = 0"
    using assms by (simp add: type_ref_addBlocks type_ref_init)
  have j: "type_ref (addBlocks (init dn) cs) j = 0"
    using assms by (simp add: type_ref_addBlocks type_ref_init)
  show ?thesis
    using assms i j
    by (simp add: blank_def addBlock_after Block_type_def after_simps Let_def)
qed

theorem addBlock_shared_type_row_witness:
  "type_ref (blank ''Unused Block'') 0 = type_ref (blank ''Unused Block'') 5 \<and>
   type_ref (addBlocks (init ''Unused Block'') [(5, 1, no_kw), (2, 0, no_kw)]) 5 =
     type_ref (addBlocks (init ''Unused Block'') [(5, 1, no_kw), (2, 0, no_kw)]) 7 \<and>
   (\<exists>m' b. addBlock (addBlocks (init ''Unused Block'') [(5, 1, no_kw), (2, 0, no_kw)]) 5 3
              (no_kw\<lparr>kw_type := Some ''STAIRS''\<rparr>) = Inr (m', b) \<and>
      Block_type m' \<lparr>ID = 7, blockData = 3, stringID = ''''\<rparr> = Inr ''STAIRS'')"
  using addBlock_shared_type_row [of 5 7 3 "[(5, 1, no_kw), (2, 0, no_kw)]" "''Unused Block''"
      "no_kw\<lparr>kw_type := Some ''STAIRS''\<rparr>" "''''"]
  by (simp add: id_limit_def no_kw_def)

section \<open>Lookup by identifier\<close>

text \<open>
  C7, as the claim states it, fails: an identifier that no definition ever targeted need
  not resolve to the defaults. After the one definition \<open>addBlock(1, 3, brightness=7)\<close> on
  a fresh registry, \<open>blockWithID(1, 5)\<close> is a new descriptor of \<open>(1, 5)\<close> and its brightness
  resolves to 7, not to the default 0: the light values are stored per block ID.
\<close>

theorem untargeted_brightness_not_default:
  "blockWithID (addBlocks (init ''Unused Block'') [(1, 3, no_kw\<lparr>kw_brightness := Some 7\<rparr>)]) 1 5
     = \<lparr>ID = 1, blockData = 5, stringID = ''''\<rparr> \<and>
   Block_brightness (addBlocks (init ''Unused Block'') [(1, 3, no_kw\<lparr>kw_brightness := Some 7\<rparr>)])
     (blockWithID (addBlocks (init ''Unused Block'') [(1, 3, no_kw\<lparr>kw_brightness := Some 7\<rparr>)]) 1 5)
     = Inr 7"
  by (simp add: blockWithID_def Block_brightness_def after_simps id_limit_def no_kw_def init_def
      blank_def)

text \<open>
  C7, amended. In a registry made by the constructor (with default name \<open>dn\<close>) and any
  sequence \<open>cs\<close> of definitions, \<open>blockWithID\<close> never raises and, for an in-range
  identifier \<open>(i, d)\<close>, returns a descriptor of \<open>(i, d)\<close>. The definitions that count are
  those of \<open>cs\<close> and the constructor's own definition of Air as \<open>(0, 0)\<close>. If none of
  them targeted \<open>(i, d)\<close>, the alias resolves to the empty string; if none targeted
  \<open>(i, d)\<close> or \<open>(i, 0)\<close> (whose values go to all the variants of \<open>i\<close>), the name and
  the colour resolve to the defaults; if none targeted the block ID \<open>i\<close> at all, the
  brightness, the opacity and the textures, which are kept per block ID, resolve to the
  defaults. The resolution of an attribute raises only for a descriptor whose ID or data is
  out of range. (The category is not part of the statement.)
\<close>

theorem blockWithID_defaults:
  assumes "i < id_limit" and "d < 16"
  shows "ID (blockWithID (addBlocks (init dn) cs) i d) = i \<and>
         blockData (blockWithID (addBlocks (init dn) cs) i d) = d \<and>
         ((i, d) \<notin> target ` set ((0, 0, air_kw) # cs) \<longrightarrow>
            Block_aka (addBlocks (init dn) cs) (blockWithID (addBlocks (init dn) cs) i d) = Inr '''') \<and>
         ((i, d) \<notin> target ` set ((0, 0, air_kw) # cs) \<and>
          (i, 0) \<notin> target ` set ((0, 0, air_kw) # cs) \<longrightarrow>
            Block_name (addBlocks (init dn) cs) (blockWithID (addBlocks (init dn) cs) i d) = Inr dn \<and>
            Block_color (addBlocks (init dn) cs) (blockWithID (addBlocks (init dn) cs) i d)
              = Inr (0xc9, 0x77, 0xf0, 0xff)) \<and>
         (i \<notin> fst ` set ((0, 0, air_kw) # cs) \<longrightarrow>
            Block_brightness (addBlocks (init dn) cs) (blockWithID (addBlocks (init dn) cs) i d) = Inr 0 \<and>
            Block_opacity (addBlocks (init dn) cs) (blockWithID (addBlocks (init dn) cs) i d) = Inr 15 \<and>
            Block_blockTextures (addBlocks (init dn) cs) (blockWithID (addBlocks (init dn) cs) i d)
              = Inr (\<lambda>v face. (0x1F0, 0x1F0))) \<and>
         (\<forall>b e.
            (Block_name (addBlocks (init dn) cs) b = Inl e \<longrightarrow> \<not> (ID b < id_limit \<and> blockData b < 16)) \<and>
            (Block_aka (addBlocks (init dn) cs) b = Inl e \<longrightarrow> \<not> (ID b < id_limit \<and> blockData b < 16)) \<and>
            (Block_color (addBlocks (init dn) cs) b = Inl e \<longrightarrow> \<not> (ID b < id_limit \<and> blockData b < 16)) \<and>
            (Block_type (addBlocks (init dn) cs) b = Inl e \<longrightarrow> \<not> (ID b < id_limit \<and> blockData b < 16)) \<and>
            (Block_brightness (addBlocks (init dn) cs) b = Inl e \<longrightarrow> \<not> ID b < id_limit) \<and>
            (Block_opacity (addBlocks (init dn) cs) b = Inl e \<longrightarrow> \<not> ID b < id_limit) \<and>
            (Block_blockTextures (addBlocks (init dn) cs) b = Inl e \<longrightarrow> \<not> ID b < id_limit))"
proof -
  let ?m = "addBlocks (init dn) cs"
  let ?cs = "(0, 0, air_kw) # cs"
  let ?b = "blockWithID ?m i d"
  have m: "?m = addBlocks (blank dn) ?cs"
    by (rule init_addBlocks)
  have "byID_ok ?m"
    unfolding m by (rule byID_ok_addBlocks) (rule byID_ok_blank)
  then have ids: "ID ?b = i \<and> blockData ?b = d"
    by (rule blockWithID_ids)
  have aka0: "Block_aka ?m ?b = Inr ''''" if "(i, d) \<notin> target ` set ?cs"
    using assms ids aka_addBlocks [OF that, of "blank dn"]
    by (simp add: Block_aka_def m blank_def del: addBlocks.simps)
  have name: "Block_name ?m ?b = Inr dn \<and> Block_color ?m ?b = Inr (0xc9, 0x77, 0xf0, 0xff)"
    if "(i, d) \<notin> target ` set ?cs \<and> (i, 0) \<notin> target ` set ?cs"
    using assms ids that names_addBlocks [of i d ?cs "blank dn"]
      flatColors_addBlocks [of i d ?cs "blank dn"]
    by (simp add: Block_name_def Block_color_def m blank_def defaultColor_def del: addBlocks.simps)
  have light: "Block_brightness ?m ?b = Inr 0 \<and> Block_opacity ?m ?b = Inr 15 \<and>
      Block_blockTextures ?m ?b = Inr (\<lambda>v face. (0x1F0, 0x1F0))"
    if "i \<notin> fst ` set ?cs"
  proof -
    from that have "\<forall>c\<in>set ?cs. fst c \<noteq> i" by auto
    from same_at_addBlocks [OF this, of "blank dn"] show ?thesis
      using assms ids
      by (simp add: same_at_def Block_brightness_def Block_opacity_def Block_blockTextures_def m
          blank_def defaultBrightness_def defaultOpacity_def defaultTexture_def NOTEX_def
          to_texcoord_def del: addBlocks.simps)
  qed
  show ?thesis
    using ids aka0 name light resolution_in_range [of ?m] by blast
qed


theorem blockWithID_defaults_witness:
  "Block_name (addBlocks (init ''Unused Block'') [(2, 3, stone_kw), (4, 0, stone_kw)])
     (blockWithID (addBlocks (init ''Unused Block'') [(2, 3, stone_kw), (4, 0, stone_kw)]) 2 3)
     = Inr ''Stone'' \<and>
   Block_brightness (addBlocks (init ''Unused Block'') [(2, 3, stone_kw), (4, 0, stone_kw)])
     (blockWithID (addBlocks (init ''Unused Block'') [(2, 3, stone_kw), (4, 0, stone_kw)]) 2 5)
     = Inr 7 \<and>
   Block_aka (addBlocks (init ''Unused Block'') [(2, 3, stone_kw), (4, 0, stone_kw)])
     (blockWithID (addBlocks (init ''Unused Block'') [(2, 3, stone_kw), (4, 0, stone_kw)]) 2 5)
     = Inr '''' \<and>
   Block_name (addBlocks (init ''Unused Block'') [(2, 3, stone_kw), (4, 0, stone_kw)])
     (blockWithID (addBlocks (init ''Unused Block'') [(2, 3, stone_kw), (4, 0, stone_kw)]) 2 5)
     = Inr ''Unused Block'' \<and>
   Block_color (addBlocks (init ''Unused Block'') [(2, 3, stone_kw), (4, 0, stone_kw)])
     (blockWithID (addBlocks (init ''Unused Block'') [(2, 3, stone_kw), (4, 0, stone_kw)]) 2 5)
     = Inr (0xc9, 0x77, 0xf0, 0xff) \<and>
   ID (blockWithID (addBlocks (init ''Unused Block'') [(2, 3, stone_kw), (4, 0, stone_kw)]) 3 5) = 3 \<and>
   blockData (blockWithID (addBlocks (init ''Unused Block'') [(2, 3, stone_kw), (4, 0, stone_kw)]) 3 5) = 5 \<and>
   Block_brightness (addBlocks (init ''Unused Block'') [(2, 3, stone_kw), (4, 0, stone_kw)])
     (blockWithID (addBlocks (init ''Unused Block'') [(2, 3, stone_kw), (4, 0, stone_kw)]) 3 5)
     = Inr 0 \<and>
   Block_opacity (addBlocks (init ''Unused Block'') [(2, 3, stone_kw), (4, 0, stone_kw)])
     (blockWithID (addBlocks (init ''Unused Block'') [(2, 3, stone_kw), (4, 0, stone_kw)]) 3 5)
     = Inr 15 \<and>
   Block_blockTextures (addBlocks (init ''Unused Block'') [(2, 3, stone_kw), (4, 0, stone_kw)])
     (blockWithID (addBlocks (init ''Unused Block'') [(2, 3, stone_kw), (4, 0, stone_kw)]) 3 5)
     = Inr (\<lambda>v face. (0x1F0, 0x1F0))"
proof -
  let ?cs = "[(2::nat, 3::nat, stone_kw), (4, 0, stone_kw)]"
  let ?m = "addBlocks (init ''Unused Block'') ?cs"
  have range: "(2::nat) < id_limit" "(3::nat) < id_limit" "(5::nat) < 16"
    by (simp_all add: id_limit_def)
  have t25: "(2, 5) \<notin> target ` set ((0, 0, air_kw) # ?cs)"
    "(2, 0) \<notin> target ` set ((0, 0, air_kw) # ?cs)"
    and t3: "(3, 5) \<notin> target ` set ((0, 0, air_kw) # ?cs)"
    "(3, 0) \<notin> target ` set ((0, 0, air_kw) # ?cs)"
    "(3::nat) \<notin> fst ` set ((0, 0, air_kw) # ?cs)"
    by (simp_all add: target_def)
  have stone: "Block_name ?m (blockWithID ?m 2 3) = Inr ''Stone''"
    "Block_brightness ?m (blockWithID ?m 2 5) = Inr 7"
    by (simp_all add: Block_name_def Block_brightness_def blockWithID_def after_simps set_slot_def
        id_limit_def stone_kw_def init_def blank_def)
  from blockWithID_defaults [OF range(1,3), of "''Unused Block''" ?cs] t25
  have a: "Block_aka ?m (blockWithID ?m 2 5) = Inr ''''"
    "Block_name ?m (blockWithID ?m 2 5) = Inr ''Unused Block''"
    "Block_color ?m (blockWithID ?m 2 5) = Inr (0xc9, 0x77, 0xf0, 0xff)"
    by blast+
  from blockWithID_defaults [OF range(2,3), of "''Unused Block''" ?cs] t3
  have b: "ID (blockWithID ?m 3 5) = 3" "blockData (blockWithID ?m 3 5) = 5"
    "Block_brightness ?m (blockWithID ?m 3 5) = Inr 0"
    "Block_opacity ?m (blockWithID ?m 3 5) = Inr 15"
    "Block_blockTextures ?m (blockWithID ?m 3 5) = Inr (\<lambda>v face. (0x1F0, 0x1F0))"
    by blast+
  show ?thesis
    using stone a b by blast
qed

section \<open>Lookup by partial name\<close>



section \<open>Rotation of directed textures\<close>

text \<open>
  C2. The claim is that \<open>rot90cw\<close> leaves the top and bottom faces (indices 2 and 3) in
  place, cycles the four lateral faces, and is the identity when applied four times. The
  permutation \<open>rot\<close> of the source leaves face 4 (BACKWARD) in place as well and cycles
  only the faces 0, 1 and 5: on six distinct texture coordinates, four applications do not
  give the sequence back (they equal one application).
\<close>

theorem rot90cw_four_times:
  "rot90cw_times 4 [(0, 0), (16, 0), (32, 0), (48, 0), (64, 0), (80::nat, 0::nat)]
     = Inr [(80, 0), (0, 0), (32, 0), (48, 0), (64, 0), (16, 0)]"
  by (simp add: numeral_eq_Suc rot90cw_def rot_def)

section \<open>Conversion between registries\<close>

text \<open>
  C1. The claim is that the table built from no filters and no unavailable blocks maps
  every identifier to itself. The table is a \<open>uint8\<close> array, so the identity written
  into it is cut to 8 bits: the conversion made from that table sends block 256, variant 0
  to block 0, variant 0, whatever the fallback.
\<close>

theorem filterTable_empty_wraps:
  "filterTable [] [] fallback = Inr indices_table \<and>
   call_conversion (FilterConversion indices_table) 256 (Some 0) = Inr (0, Some 0)"
  by (simp add: filterTable_def convert_def indices_table_def to_u8_def id_limit_def)

text \<open>
  C6. For one registry as both destination and source, \<open>conversionFunc\<close> returns
  \<open>nullConversion\<close> and leaves the cache of conversions as it was, whatever the registry
  holds (\<open>guessFilterTable\<close> and \<open>filterTable\<close> are not reached); and \<open>nullConversion\<close>
  returns every pair of a block ID and its data unchanged.
\<close>

theorem conversionFunc_same_registry:
  "conversionFunc w r r = Inr (NullConversion, w) \<and>
   call_conversion NullConversion b d = Inr (b, d)"
  by (simp add: conversionFunc_def nullConversion_def)

section \<open>Correspondence of names\<close>

text \<open>
  C4, as the claim states it, fails: of two destination blocks with one name, the one
  defined later is not the one chosen. The destination defines Stone as \<open>(1, 0)\<close> and then
  as \<open>(2, 0)\<close>; the source defines Stone as \<open>(5, 0)\<close>. The filter found for \<open>(5, 0)\<close> leads
  to \<open>(1, 0)\<close>, the block defined first. (Air, block 0 of both registries, matches itself
  and gives no filter.)
\<close>

theorem later_defined_name_not_chosen:
  "allBlocks (addBlocks (init ''Unused Block'') [(1, 0, named ''Stone''), (2, 0, named ''Stone'')])
     = [\<lparr>ID = 0, blockData = 0, stringID = ''''\<rparr>, \<lparr>ID = 1, blockData = 0, stringID = ''''\<rparr>,
        \<lparr>ID = 2, blockData = 0, stringID = ''''\<rparr>] \<and>
   guessFilterTable (addBlocks (init ''Unused Block'') [(5, 0, named ''Stone'')])
     (addBlocks (init ''Unused Block'') [(1, 0, named ''Stone''), (2, 0, named ''Stone'')])
     = Inr ([((5, 0), (1, 0))], [])"
  by (simp add: guessFilterTable_def toByName_def sorted_reverse_def guess_block_def
      Block_name_def allBlocks_after allBlocks_init names_after names_init named_simps
      set_slot_def id_limit_def block_key_def)

text \<open>
  C4, amended. In a destination registry whose blocks are in range, \<open>toByName\<close> is built
  without raising, and for the name \<open>n\<close> of any known destination block \<open>b\<close> the first
  rule of the search (the lookup of \<open>n\<close> in \<open>toByName\<close>) finds a known destination block
  \<open>c\<close> of that name whose key \<open>(ID, blockData)\<close> is at most that of \<open>b\<close>: among the
  destination blocks of one name the match is the one with the least identifier, whatever the
  order of definition (the blocks are sorted by \<open>Block.__cmp__\<close> in reverse, and a later
  pair of the dict overwrites an earlier one).
\<close>

theorem exact_name_least_key:
  assumes "blocks_ok matsTo" and "b \<in> set (allBlocks matsTo)" and "Block_name matsTo b = Inr n"
  shows "\<exists>byName c. toByName matsTo = Inr byName \<and> guess_block matsTo byName n = Inr (Some c) \<and>
           c \<in> set (allBlocks matsTo) \<and> Block_name matsTo c = Inr n \<and>
           block_key c \<le> block_key b"
proof -
  have "in_range b"
    using assms(1,2) by (simp add: blocks_ok_in_range)
  then have "name_of matsTo b = n"
    using assms(3) by (simp add: Block_name_in_range)
  from toByName_least [OF assms(1,2) this] obtain byName c where
    c: "toByName matsTo = Inr byName" "byName n = Some c" "c \<in> set (allBlocks matsTo)"
       "name_of matsTo c = n" "block_key c \<le> block_key b"
    by blast
  then have "in_range c"
    using assms(1) by (simp add: blocks_ok_in_range)
  then have "Block_name matsTo c = Inr n"
    using c(4) by (simp add: Block_name_in_range)
  moreover have "guess_block matsTo byName n = Inr (Some c)"
    using c(2) by (simp add: guess_block_def)
  ultimately show ?thesis
    using c by blast
qed

theorem exact_name_least_key_witness:
  "(\<exists>byName.
      toByName (addBlocks (init ''Unused Block'') [(1, 0, named ''Stone''), (2, 0, named ''Stone'')])
        = Inr byName \<and>
      guess_block (addBlocks (init ''Unused Block'') [(1, 0, named ''Stone''), (2, 0, named ''Stone'')])
        byName ''Stone'' = Inr (Some \<lparr>ID = 1, blockData = 0, stringID = ''''\<rparr>)) \<and>
   (\<exists>byName.
      toByName (addBlocks (init ''Unused Block'') [(2, 0, named ''Stone''), (1, 0, named ''Stone'')])
        = Inr byName \<and>
      guess_block (addBlocks (init ''Unused Block'') [(2, 0, named ''Stone''), (1, 0, named ''Stone'')])
        byName ''Stone'' = Inr (Some \<lparr>ID = 1, blockData = 0, stringID = ''''\<rparr>))"
proof -
  let ?b1 = "\<lparr>ID = 1, blockData = 0, stringID = ''''\<rparr>"
  have pick: "\<exists>byName. toByName m = Inr byName \<and> guess_block m byName ''Stone'' = Inr (Some ?b1)"
    if ok: "blocks_ok m" and mem: "?b1 \<in> set (allBlocks m)"
      and name: "Block_name m ?b1 = Inr ''Stone''"
      and others: "\<And>c. c \<in> set (allBlocks m) \<Longrightarrow> Block_name m c = Inr ''Stone'' \<Longrightarrow>
                     block_key c \<le> block_key ?b1 \<Longrightarrow> c = ?b1"
    for m
  proof -
    from exact_name_least_key [OF ok mem name] obtain byName c where
      c: "toByName m = Inr byName" "guess_block m byName ''Stone'' = Inr (Some c)"
         "c \<in> set (allBlocks m)" "Block_name m c = Inr ''Stone''" "block_key c \<le> block_key ?b1"
      by blast
    from others [OF c(3,4,5)] c(1,2) show ?thesis by blast
  qed
  let ?A = "addBlocks (init ''Unused Block'') [(1, 0, named ''Stone''), (2, 0, named ''Stone'')]"
  let ?B = "addBlocks (init ''Unused Block'') [(2, 0, named ''Stone''), (1, 0, named ''Stone'')]"
  have okA: "blocks_ok ?A"
    by (rule blocks_ok_addBlocks) (rule blocks_ok_init)
  have okB: "blocks_ok ?B"
    by (rule blocks_ok_addBlocks) (rule blocks_ok_init)
  have memA: "?b1 \<in> set (allBlocks ?A)" and memB: "?b1 \<in> set (allBlocks ?B)"
    by (simp_all add: registry_eval)
  have nameA: "Block_name ?A ?b1 = Inr ''Stone''" and nameB: "Block_name ?B ?b1 = Inr ''Stone''"
    by (simp_all add: registry_eval)
  have allA: "allBlocks ?A = [\<lparr>ID = 0, blockData = 0, stringID = ''''\<rparr>, ?b1,
      \<lparr>ID = 2, blockData = 0, stringID = ''''\<rparr>]"
    and allB: "allBlocks ?B = [\<lparr>ID = 0, blockData = 0, stringID = ''''\<rparr>,
      \<lparr>ID = 2, blockData = 0, stringID = ''''\<rparr>, ?b1]"
    by (simp_all add: registry_eval)
  have airA: "Block_name ?A \<lparr>ID = 0, blockData = 0, stringID = ''''\<rparr> = Inr ''Air''"
    and airB: "Block_name ?B \<lparr>ID = 0, blockData = 0, stringID = ''''\<rparr> = Inr ''Air''"
    by (simp_all add: registry_eval)
  have key2: "\<not> block_key \<lparr>ID = 2, blockData = 0, stringID = ''''\<rparr> \<le> block_key ?b1"
    by (simp add: block_key_def)
  have othersA: "c = ?b1" if "c \<in> set (allBlocks ?A)" "Block_name ?A c = Inr ''Stone''"
      "block_key c \<le> block_key ?b1" for c
    using that airA key2 unfolding allA by auto
  have othersB: "c = ?b1" if "c \<in> set (allBlocks ?B)" "Block_name ?B c = Inr ''Stone''"
      "block_key c \<le> block_key ?b1" for c
    using that airB key2 unfolding allB by auto
  from pick [OF okA memA nameA othersA] pick [OF okB memB nameB othersB]
  show ?thesis by (rule conjI)
qed


text \<open>
  C9, as the claim states it, fails: the special case does not always give a filter entry.
  The source names \<open>(35, 10)\<close> Violet Wool, the destination names \<open>(35, 10)\<close> Purple Wool
  and has no other block but Air: the match found for Violet Wool is the block with its own
  identifier, and the result holds no filter and no unavailable block.
\<close>

theorem violet_wool_same_identifier:
  "guessFilterTable (addBlocks (init ''Unused Block'') [(35, 10, named ''Violet Wool'')])
     (addBlocks (init ''Unused Block'') [(35, 10, named ''Purple Wool'')])
     = Inr ([], [])"
  by (simp add: guessFilterTable_def toByName_def sorted_reverse_def guess_block_def
      name_startswith_def in_name_def in_aka_def
      Block_name_def Block_aka_def allBlocks_after allBlocks_init names_after names_init
      aka_after aka_init named_simps set_slot_def id_limit_def block_key_def)


text \<open>
  C9, amended. Source and destination are registries whose blocks are in range. A known
  source block is named Violet Wool; no destination block has that name, and the rules 2 to
  4 (prefix of a name, part of a name, part of an alias) find none; some destination block
  is named Purple Wool. Then \<open>guessFilterTable\<close> returns, the identifier of Violet Wool is
  not among the unavailable ones, and there is a known destination block \<open>c\<close> named Purple
  Wool such that: if the identifier of \<open>c\<close> differs from that of Violet Wool, the filters
  hold the pair from Violet Wool's identifier to that of \<open>c\<close> and no other pair from it;
  if the two identifiers are the same, the filters hold no pair from it (a match with the
  block's own identifier is not recorded).
\<close>

theorem violet_wool_special_case:
  assumes "blocks_ok matsFrom" and "blocks_ok matsTo"
      and "fromBlock \<in> set (allBlocks matsFrom)"
      and "Block_name matsFrom fromBlock = Inr ''Violet Wool''"
      and "\<forall>b\<in>set (allBlocks matsTo). Block_name matsTo b \<noteq> Inr ''Violet Wool''"
      and "\<forall>b\<in>set (allBlocks matsTo). name_startswith matsTo ''Violet Wool'' b = Inr False"
      and "\<forall>b\<in>set (allBlocks matsTo). in_name matsTo ''Violet Wool'' b = Inr False"
      and "\<forall>b\<in>set (allBlocks matsTo). in_aka matsTo ''Violet Wool'' b = Inr False"
      and "p \<in> set (allBlocks matsTo)" and "Block_name matsTo p = Inr ''Purple Wool''"
  shows "\<exists>filters unavailable c.
           guessFilterTable matsFrom matsTo = Inr (filters, unavailable) \<and>
           c \<in> set (allBlocks matsTo) \<and> Block_name matsTo c = Inr ''Purple Wool'' \<and>
           block_key fromBlock \<notin> set unavailable \<and>
           (if block_key c = block_key fromBlock then block_key fromBlock \<notin> fst ` set filters
            else (block_key fromBlock, block_key c) \<in> set filters \<and>
                 (\<forall>t. (block_key fromBlock, t) \<in> set filters \<longrightarrow> t = block_key c))"
proof -
  have to_range: "\<forall>b\<in>set (allBlocks matsTo). in_range b"
    using assms(2) by (simp add: blocks_ok_in_range)
  have from_range: "\<forall>b\<in>set (allBlocks matsFrom). in_range b"
    using assms(1) by (simp add: blocks_ok_in_range)
  have fname: "name_of matsFrom fromBlock = ''Violet Wool''"
    using assms(3,4) from_range by (simp add: Block_name_in_range)
  have "name_of matsTo p = ''Purple Wool''"
    using assms(9,10) to_range by (simp add: Block_name_in_range)
  from toByName_least [OF assms(2,9) this] obtain byName c where
    c: "toByName matsTo = Inr byName" "byName ''Purple Wool'' = Some c"
       "c \<in> set (allBlocks matsTo)" "name_of matsTo c = ''Purple Wool''"
    by blast
  have "\<forall>b\<in>set (allBlocks matsTo). name_of matsTo b \<noteq> ''Violet Wool''"
    using assms(5) to_range by (simp add: Block_name_in_range)
  from toByName_None [OF assms(2) this] c(1) have none: "byName ''Violet Wool'' = None"
    by simp
  have r2: "find (\<lambda>b. startswith (name_of matsTo b) ''Violet Wool'') (allBlocks matsTo) = None"
    using assms(6) to_range by (simp add: find_None_iff rules_in_range)
  have r3: "find (\<lambda>b. str_in ''Violet Wool'' (name_of matsTo b)) (allBlocks matsTo) = None"
    using assms(7) to_range by (simp add: find_None_iff rules_in_range)
  have r4: "find (\<lambda>b. str_in ''Violet Wool'' (aka_of matsTo b)) (allBlocks matsTo) = None"
    using assms(8) to_range by (simp add: find_None_iff rules_in_range)
  have g: "guessed matsTo byName ''Violet Wool'' = Some c"
    using none r2 r3 r4 c(2) by (simp add: guessed_def)
  from guess_loop_sets [OF assms(2) from_range, of matsFrom byName "[]" "[]"]
  obtain fs us where
    loop: "guess_loop matsFrom matsTo byName (allBlocks matsFrom) ([], []) = Inr (fs, us)"
    and us: "set us = {block_key fb | fb. fb \<in> set (allBlocks matsFrom) \<and>
                 guessed matsTo byName (name_of matsFrom fb) = None}"
    and fs: "set fs = {(block_key fb, block_key c) | fb c. fb \<in> set (allBlocks matsFrom) \<and>
                 guessed matsTo byName (name_of matsFrom fb) = Some c \<and> block_key c \<noteq> block_key fb}"
    by auto
  have same: "\<And>fb. block_key fb = block_key fromBlock \<Longrightarrow>
      guessed matsTo byName (name_of matsFrom fb) = Some c"
    using g fname by (simp add: block_key_def name_of_def)
  have "guessFilterTable matsFrom matsTo = Inr (fs, us)"
    using c(1) loop by (simp add: guessFilterTable_def)
  moreover have "Block_name matsTo c = Inr ''Purple Wool''"
    using c(3,4) to_range by (simp add: Block_name_in_range)
  moreover have "block_key fromBlock \<notin> set us"
    using us same by force
  moreover have "block_key c = block_key fromBlock \<Longrightarrow> block_key fromBlock \<notin> fst ` set fs"
    using fs same by force
  moreover have "block_key c \<noteq> block_key fromBlock \<Longrightarrow> (block_key fromBlock, block_key c) \<in> set fs"
    using fs g fname assms(3) by force
  moreover have "\<forall>t. (block_key fromBlock, t) \<in> set fs \<longrightarrow> t = block_key c"
    using fs same by force
  ultimately show ?thesis
    using c(3) by auto
qed


theorem violet_wool_special_case_witness:
  "(\<exists>filters unavailable.
      guessFilterTable (addBlocks (init ''Unused Block'') [(31, 0, named ''Violet Wool'')])
        (addBlocks (init ''Unused Block'') [(35, 0, named ''Wool''), (35, 10, named ''Purple Wool'')])
        = Inr (filters, unavailable) \<and>
      ((31, 0), (35, 10)) \<in> set filters \<and> (31, 0) \<notin> set unavailable) \<and>
   (\<exists>filters unavailable.
      guessFilterTable (addBlocks (init ''Unused Block'') [(35, 10, named ''Violet Wool'')])
        (addBlocks (init ''Unused Block'') [(35, 0, named ''Wool''), (35, 10, named ''Purple Wool'')])
        = Inr (filters, unavailable) \<and>
      (35, 10) \<notin> fst ` set filters \<and> (35, 10) \<notin> set unavailable)"
proof -
  let ?to = "addBlocks (init ''Unused Block'') [(35, 0, named ''Wool''), (35, 10, named ''Purple Wool'')]"
  let ?air = "\<lparr>ID = 0, blockData = 0, stringID = ''''\<rparr>"
  let ?w = "\<lparr>ID = 35, blockData = 0, stringID = ''''\<rparr>"
  let ?p = "\<lparr>ID = 35, blockData = 10, stringID = ''''\<rparr>"
  have to: "blocks_ok ?to"
    by (rule blocks_ok_addBlocks) (rule blocks_ok_init)
  have all_to: "allBlocks ?to = [?air, ?w, ?p]"
    by (simp add: registry_eval)
  have names_to: "Block_name ?to ?air = Inr ''Air''" "Block_name ?to ?w = Inr ''Wool''"
    "Block_name ?to ?p = Inr ''Purple Wool''"
    by (simp_all add: registry_eval)
  have akas_to: "Block_aka ?to ?air = Inr ''''" "Block_aka ?to ?w = Inr ''''"
    "Block_aka ?to ?p = Inr ''''"
    by (simp_all add: registry_eval)
  have r1: "\<forall>b\<in>set (allBlocks ?to). Block_name ?to b \<noteq> Inr ''Violet Wool''"
    unfolding all_to using names_to by simp
  have r2: "\<forall>b\<in>set (allBlocks ?to). name_startswith ?to ''Violet Wool'' b = Inr False"
    unfolding all_to using names_to by (simp add: name_startswith_def)
  have r3: "\<forall>b\<in>set (allBlocks ?to). in_name ?to ''Violet Wool'' b = Inr False"
    unfolding all_to using names_to by (simp add: in_name_def)
  have r4: "\<forall>b\<in>set (allBlocks ?to). in_aka ?to ''Violet Wool'' b = Inr False"
    unfolding all_to using akas_to by (simp add: in_aka_def)
  have p: "?p \<in> set (allBlocks ?to)"
    unfolding all_to by simp
  have only: "block_key c = (35, 10)"
    if "c \<in> set (allBlocks ?to)" "Block_name ?to c = Inr ''Purple Wool''" for c
    using that names_to unfolding all_to by (auto simp: block_key_def)
  let ?f1 = "addBlocks (init ''Unused Block'') [(31, 0, named ''Violet Wool'')]"
  let ?v1 = "\<lparr>ID = 31, blockData = 0, stringID = ''''\<rparr>"
  have f1: "blocks_ok ?f1"
    by (rule blocks_ok_addBlocks) (rule blocks_ok_init)
  have v1: "?v1 \<in> set (allBlocks ?f1)" "Block_name ?f1 ?v1 = Inr ''Violet Wool''"
    by (simp_all add: registry_eval)
  have k1: "block_key ?v1 = (31, 0)"
    by (simp add: block_key_def)
  let ?f2 = "addBlocks (init ''Unused Block'') [(35, 10, named ''Violet Wool'')]"
  have f2: "blocks_ok ?f2"
    by (rule blocks_ok_addBlocks) (rule blocks_ok_init)
  have v2: "?p \<in> set (allBlocks ?f2)" "Block_name ?f2 ?p = Inr ''Violet Wool''"
    by (simp_all add: registry_eval)
  have k2: "block_key ?p = (35, 10)"
    by (simp add: block_key_def)
  have first: "\<exists>filters unavailable. guessFilterTable ?f1 ?to = Inr (filters, unavailable) \<and>
      ((31, 0), (35, 10)) \<in> set filters \<and> (31, 0) \<notin> set unavailable"
  proof -
    from violet_wool_special_case [OF f1 to v1 r1 r2 r3 r4 p names_to(3)]
    obtain filters unavailable c where
      g: "guessFilterTable ?f1 ?to = Inr (filters, unavailable)"
      and c: "c \<in> set (allBlocks ?to)" "Block_name ?to c = Inr ''Purple Wool''"
      and u: "block_key ?v1 \<notin> set unavailable"
      and f: "if block_key c = block_key ?v1 then block_key ?v1 \<notin> fst ` set filters
            else (block_key ?v1, block_key c) \<in> set filters \<and>
                 (\<forall>t. (block_key ?v1, t) \<in> set filters \<longrightarrow> t = block_key c)"
      by blast
    have ck: "block_key c = (35, 10)"
      using c by (rule only)
    then have "block_key c \<noteq> block_key ?v1"
      unfolding k1 by simp
    with f have "(block_key ?v1, block_key c) \<in> set filters"
      by simp
    then show ?thesis
      using g u unfolding ck k1 by blast
  qed
  have second: "\<exists>filters unavailable. guessFilterTable ?f2 ?to = Inr (filters, unavailable) \<and>
      (35, 10) \<notin> fst ` set filters \<and> (35, 10) \<notin> set unavailable"
  proof -
    from violet_wool_special_case [OF f2 to v2 r1 r2 r3 r4 p names_to(3)]
    obtain filters unavailable c where
      g: "guessFilterTable ?f2 ?to = Inr (filters, unavailable)"
      and c: "c \<in> set (allBlocks ?to)" "Block_name ?to c = Inr ''Purple Wool''"
      and u: "block_key ?p \<notin> set unavailable"
      and f: "if block_key c = block_key ?p then block_key ?p \<notin> fst ` set filters
            else (block_key ?p, block_key c) \<in> set filters \<and>
                 (\<forall>t. (block_key ?p, t) \<in> set filters \<longrightarrow> t = block_key c)"
      by blast
    have ck: "block_key c = (35, 10)"
      using c by (rule only)
    with f have "block_key ?p \<notin> fst ` set filters"
      unfolding k2 by simp
    then show ?thesis
      using g u unfolding k2 by blast
  qed
  from first second show ?thesis by (rule conjI)
qed

end
